theory Spec2Isabelle
  imports Complex_Main "HOL-Library.Word" "HOL-Library.AList"
begin

section \<open>Framed stream codec: \<open>SessionManager._decode_docker_stream\<close>\<close>

text \<open>
  A Python \<open>bytes\<close> value is a list of 8-bit words; a Python \<open>str\<close> produced by
  decoding is a list of Unicode code points.
\<close>

type_synonym byte = "8 word"
type_synonym pystr = "nat list"

text \<open>
  \<open>bytes.decode("utf-8", errors="replace")\<close> is a builtin of the interpreter, not code of
  the repository. It is written out here after CPython's decoder: an ill-formed start
  byte, the well-formed part of a sequence before a bad continuation byte, and a
  sequence cut off by the end of the input are each replaced by one U+FFFD.
\<close>

definition is_cont :: "nat \<Rightarrow> bool" where
  "is_cont b = (128 \<le> b \<and> b \<le> 191)"

definition second_ok3 :: "nat \<Rightarrow> nat \<Rightarrow> bool" where
  "second_ok3 b0 b1 =
     (is_cont b1 \<and> \<not> (if b1 < 160 then b0 = 224 else b0 = 237))"

definition second_ok4 :: "nat \<Rightarrow> nat \<Rightarrow> bool" where
  "second_ok4 b0 b1 =
     (is_cont b1 \<and> \<not> (if b1 < 144 then b0 = 240 else b0 = 244))"

definition replacement :: nat where
  "replacement = 65533"

fun utf8_replace :: "nat list \<Rightarrow> pystr" where
  "utf8_replace [] = []"
| "utf8_replace (b0 # bs) =
     (if b0 < 128 then b0 # utf8_replace bs
      else if b0 < 194 then replacement # utf8_replace bs
      else if b0 < 224 then
        (case bs of
           [] \<Rightarrow> [replacement]
         | b1 # r1 \<Rightarrow>
             if is_cont b1 then ((b0 - 192) * 64 + (b1 - 128)) # utf8_replace r1
             else replacement # utf8_replace bs)
      else if b0 < 240 then
        (case bs of
           [] \<Rightarrow> [replacement]
         | b1 # r1 \<Rightarrow>
             if \<not> second_ok3 b0 b1 then replacement # utf8_replace bs
             else
               (case r1 of
                  [] \<Rightarrow> [replacement]
                | b2 # r2 \<Rightarrow>
                    if is_cont b2
                    then ((b0 - 224) * 4096 + (b1 - 128) * 64 + (b2 - 128)) # utf8_replace r2
                    else replacement # utf8_replace r1))
      else if b0 < 245 then
        (case bs of
           [] \<Rightarrow> [replacement]
         | b1 # r1 \<Rightarrow>
             if \<not> second_ok4 b0 b1 then replacement # utf8_replace bs
             else
               (case r1 of
                  [] \<Rightarrow> [replacement]
                | b2 # r2 \<Rightarrow>
                    if \<not> is_cont b2 then replacement # utf8_replace r1
                    else
                      (case r2 of
                         [] \<Rightarrow> [replacement]
                       | b3 # r3 \<Rightarrow>
                           if is_cont b3
                           then ((b0 - 240) * 262144 + (b1 - 128) * 4096
                                 + (b2 - 128) * 64 + (b3 - 128)) # utf8_replace r3
                           else replacement # utf8_replace r2)))
      else replacement # utf8_replace bs)"

definition decode_utf8 :: "byte list \<Rightarrow> pystr" where
  "decode_utf8 bs = utf8_replace (map unat bs)"

text \<open>Python's slice \<open>raw[a:b]\<close> for \<open>0 \<le> a\<close>, \<open>0 \<le> b\<close>, which clamps at the end.\<close>

definition py_slice :: "'a list \<Rightarrow> nat \<Rightarrow> nat \<Rightarrow> 'a list" where
  "py_slice xs a b = drop a (take b xs)"

text \<open>\<open>int.from_bytes(bs, "big")\<close>.\<close>

definition from_bytes_big :: "byte list \<Rightarrow> nat" where
  "from_bytes_big bs = foldl (\<lambda>acc b. acc * 256 + unat b) 0 bs"

definition frame_size :: "byte list \<Rightarrow> nat \<Rightarrow> nat" where
  "frame_size raw pos = from_bytes_big (py_slice raw (pos + 4) (pos + 8))"

text \<open>
  The \<open>while pos < len(raw)\<close> loop, with \<open>result\<close> the list of decoded pieces. A frame
  is consumed when a whole header is there, its first byte is 0, 1 or 2, the declared
  payload fits and is not empty; its payload is kept for stream types 0 and 1 only.
  Everything else falls through to the raw-text fallback, which ends the loop.
\<close>

function decode_loop :: "byte list \<Rightarrow> nat \<Rightarrow> pystr list \<Rightarrow> pystr list" where
  "decode_loop raw pos result =
     (if pos < length raw then
        (if pos + 8 \<le> length raw \<and> raw ! pos \<in> {0, 1, 2}
            \<and> pos + 8 + frame_size raw pos \<le> length raw \<and> 0 < frame_size raw pos
         then decode_loop raw (pos + 8 + frame_size raw pos)
                (if raw ! pos \<in> {0, 1}
                 then result @ [decode_utf8 (py_slice raw (pos + 8) (pos + 8 + frame_size raw pos))]
                 else result)
         else result @ [decode_utf8 (drop pos raw)])
      else result)"
  by pat_completeness auto
termination
  by (relation "measure (\<lambda>(raw, pos, result). length raw - pos)") auto

declare decode_loop.simps [simp del]

definition decode_docker_stream :: "byte list \<Rightarrow> pystr" where
  "decode_docker_stream data = concat (decode_loop data 0 [])"

subsection \<open>Well-formed frames\<close>

text \<open>
  A frame of the attach stream: the stream kind, the three bytes after it, and the
  payload. On the wire it is the kind, the three bytes, the payload length as a
  big-endian unsigned 32-bit number, then the payload.
\<close>

record frame =
  kind :: byte
  padding :: "byte list"
  payload :: "byte list"

definition be32 :: "nat \<Rightarrow> byte list" where
  "be32 n = [word_of_nat (n div 16777216), word_of_nat (n div 65536),
             word_of_nat (n div 256), word_of_nat n]"

definition frame_header :: "frame \<Rightarrow> byte list" where
  "frame_header f = kind f # padding f @ be32 (length (payload f))"

definition encode_frame :: "frame \<Rightarrow> byte list" where
  "encode_frame f = frame_header f @ payload f"

definition well_formed :: "frame \<Rightarrow> bool" where
  "well_formed f =
     (kind f \<in> {0, 1, 2} \<and> length (padding f) = 3 \<and> length (payload f) < 4294967296)"

text \<open>
  What the loop appends for one consumed frame, and the text of the frames of the given
  kinds: their payloads, decoded one by one and joined in order.
\<close>

definition kept :: "frame \<Rightarrow> pystr list" where
  "kept f = (if kind f \<in> {0, 1} then [decode_utf8 (payload f)] else [])"

definition decoded_payloads :: "byte list \<Rightarrow> frame list \<Rightarrow> pystr" where
  "decoded_payloads kinds fs =
     concat (map (\<lambda>f. decode_utf8 (payload f)) (filter (\<lambda>f. kind f \<in> set kinds) fs))"

section \<open>Session registry: \<open>SessionManager\<close>\<close>

subsection \<open>Values exchanged with the worker\<close>

text \<open>
  What \<open>json.loads\<close> can return. A number is a real (Python's \<open>nan\<close> and infinities are
  left out); an object is an association list looked up by key, with one entry per key as
  in the dict that \<open>json.loads\<close> builds.
\<close>

datatype json =
    JNull
  | JBool bool
  | JNum real
  | JStr string
  | JList "json list"
  | JObj "(string \<times> json) list"

text \<open>\<open>d.get(key, default)\<close> on a dict.\<close>

definition dict_get :: "(string \<times> json) list \<Rightarrow> string \<Rightarrow> json \<Rightarrow> json" where
  "dict_get d k dflt = (case map_of d k of None \<Rightarrow> dflt | Some v \<Rightarrow> v)"

text \<open>Python's truth value of a parsed JSON value, as tested by \<open>if done:\<close>.\<close>

fun truthy :: "json \<Rightarrow> bool" where
  "truthy JNull = False"
| "truthy (JBool b) = b"
| "truthy (JNum x) = (x \<noteq> 0)"
| "truthy (JStr s) = (s \<noteq> [])"
| "truthy (JList xs) = (xs \<noteq> [])"
| "truthy (JObj kvs) = (kvs \<noteq> [])"

subsection \<open>Errors\<close>

text \<open>
  Modelled from the spec: \<open>alfworld/api/errors.py\<close>, which declares the exception classes
  \<open>SessionNotFound\<close>, \<open>SessionAlreadyDone\<close>, \<open>NoSlotsAvailable\<close> and \<open>ContainerError\<close>, is
  not among the sources; the four kinds are those of the specification's error list. Every
  other Python exception is \<open>PyError\<close> with its text. A \<open>ContainerError\<close> carries what its
  message is formatted from: the worker's \<open>message\<close> value, or the exception it was raised
  from.
\<close>

datatype exc =
    SessionNotFound string
  | SessionAlreadyDone string
  | NoSlotsAvailable nat
  | ContainerError cause
  | PyError string
and cause =
    InitFailed json
  | CreateFailed exc
  | StepFailed json

text \<open>
  The result of a coroutine that may wait on the admission semaphore: it returns, raises,
  or suspends in \<open>Semaphore.acquire\<close>.
\<close>

datatype 'a outcome = Return 'a | Raise exc | Suspend

subsection \<open>State\<close>

type_synonym container = nat
type_synonym socket = nat

text \<open>
  The \<open>Session\<close> dataclass. Its \<open>lock\<close> and \<open>_read_buffer\<close> serve the exchange with
  the worker, which enters the model as the result of each exchange, and are left out.
  \<open>observation\<close> and \<open>admissible_commands\<close> hold whatever the response carried.
\<close>

record session =
  session_id :: string
  container :: container
  socket :: socket
  game_file :: string
  observation :: json
  admissible_commands :: json
  status :: string
  created_at :: int
  last_active_at :: int

text \<open>
  \<open>ServerConfig\<close>, with the two paths that its properties \<open>data_host_path\<close> and
  \<open>data_container_path\<close> split off \<open>data_volume\<close>.
\<close>

record config =
  max_sessions :: nat
  idle_timeout_s :: int
  data_host_path :: string
  data_container_path :: string

text \<open>The calls issued to the container runtime and to the attached streams, in order.\<close>

datatype call =
    Run string
  | Attach container
  | Send socket json
  | Kill container

text \<open>
  The manager: \<open>_sessions\<close> is a dict, kept in insertion order with one entry per key;
  \<open>sem_value\<close> is \<open>_semaphore._value\<close>, the number of free permits.
\<close>

record manager =
  config :: config
  game_files :: "string list"
  sessions :: "(string \<times> session) list"
  sem_value :: nat
  calls :: "call list"

definition new_manager :: "config \<Rightarrow> string list \<Rightarrow> manager" where
  "new_manager cfg gfs =
     \<lparr>config = cfg, game_files = gfs, sessions = [], sem_value = max_sessions cfg, calls = []\<rparr>"

definition active_session_count :: "manager \<Rightarrow> nat" where
  "active_session_count m = length (sessions m)"

text \<open>Permits handed out and not yet given back.\<close>

definition outstanding :: "manager \<Rightarrow> int" where
  "outstanding m = int (max_sessions (config m)) - int (sem_value m)"

text \<open>
  \<open>asyncio.Semaphore\<close>: \<open>acquire\<close> takes a permit at once when one is free and suspends
  the caller otherwise (\<open>None\<close>); \<open>release\<close> adds one, without an upper bound.
  The queue of waiters is left out: it stays empty as long as no caller suspends.
\<close>

definition sem_acquire :: "nat \<Rightarrow> nat option" where
  "sem_acquire v = (if 0 < v then Some (v - 1) else None)"

definition sem_release :: "manager \<Rightarrow> manager" where
  "sem_release m = m\<lparr>sem_value := sem_value m + 1\<rparr>"

definition get_session :: "manager \<Rightarrow> string \<Rightarrow> exc + session" where
  "get_session m sid =
     (case map_of (sessions m) sid of
        None \<Rightarrow> Inl (SessionNotFound sid)
      | Some s \<Rightarrow> Inr s)"

text \<open>Assignment to a field of a session object held in the dict.\<close>

definition modify_session :: "string \<Rightarrow> (session \<Rightarrow> session) \<Rightarrow> manager \<Rightarrow> manager" where
  "modify_session sid f m =
     m\<lparr>sessions := map (\<lambda>(k, s). if k = sid then (k, f s) else (k, s)) (sessions m)\<rparr>"

subsection \<open>Talking to the worker\<close>

text \<open>
  \<open>_send_command_sync\<close>: the write, the read and \<open>json.loads\<close> either give a parsed value or
  raise; \<open>io\<close> is that result. An exception becomes the synthetic error object.
\<close>

definition send_command_sync :: "string + json \<Rightarrow> json" where
  "send_command_sync io =
     (case io of
        Inr v \<Rightarrow> v
      | Inl e \<Rightarrow> JObj [(''status'', JStr ''error''),
                       (''message'', JStr (''Communication error: '' @ e))])"

definition send_command :: "string + json \<Rightarrow> manager \<Rightarrow> session \<Rightarrow> json \<Rightarrow> json \<times> manager" where
  "send_command io m s command =
     (send_command_sync io, m\<lparr>calls := calls m @ [Send (socket s) command]\<rparr>)"

text \<open>\<open>_kill_container\<close>: the kill is issued and any exception it raises is dropped.\<close>

definition kill_container :: "manager \<Rightarrow> container \<Rightarrow> manager" where
  "kill_container m c = m\<lparr>calls := calls m @ [Kill c]\<rparr>"

definition to_container_path :: "config \<Rightarrow> string \<Rightarrow> string" where
  "to_container_path cfg host_path =
     (if take (length (data_host_path cfg)) host_path = data_host_path cfg
      then data_container_path cfg @ drop (length (data_host_path cfg)) host_path
      else host_path)"

subsection \<open>Choosing the game file\<close>

definition TASK_TYPES :: "(int \<times> string) list" where
  "TASK_TYPES =
     [(1, ''pick_and_place_simple''),
      (2, ''look_at_obj_in_light''),
      (3, ''pick_clean_then_place_in_recep''),
      (4, ''pick_heat_then_place_in_recep''),
      (5, ''pick_cool_then_place_in_recep''),
      (6, ''pick_two_obj_and_place'')]"

text \<open>The substring test \<open>sub in s\<close> on strings.\<close>

fun py_in :: "string \<Rightarrow> string \<Rightarrow> bool" where
  "py_in sub [] = (sub = [])"
| "py_in sub (c # cs) = (take (length sub) (c # cs) = sub \<or> py_in sub cs)"

definition candidates :: "string list \<Rightarrow> int option \<Rightarrow> string list" where
  "candidates gfs task_type =
     (case task_type of
        None \<Rightarrow> gfs
      | Some t \<Rightarrow>
          (case map_of TASK_TYPES t of
             None \<Rightarrow> gfs
           | Some task_name \<Rightarrow>
               (if filter (py_in task_name) gfs = [] then gfs
                else filter (py_in task_name) gfs)))"

text \<open>
  \<open>random.choice\<close>: \<open>IndexError\<close> on an empty sequence, otherwise the element at the index
  the generator draws; \<open>r\<close> is the draw.
\<close>

definition random_choice :: "nat \<Rightarrow> 'a list \<Rightarrow> exc + 'a" where
  "random_choice r xs =
     (if xs = [] then Inl (PyError ''IndexError'') else Inr (xs ! (r mod length xs)))"

definition pick_game_file :: "nat \<Rightarrow> string list \<Rightarrow> string option \<Rightarrow> int option \<Rightarrow> exc + string" where
  "pick_game_file r gfs requested task_type =
     (case requested of
        Some g \<Rightarrow> Inr g
      | None \<Rightarrow> random_choice r (candidates gfs task_type))"

subsection \<open>\<open>create_session\<close>\<close>

text \<open>
  What the world outside the manager contributes to one call: the random draw, the new
  uuid, the clock, and the results of starting the container, of attaching to it and of
  the init exchange (\<open>Inl\<close> is an exception with its text).
\<close>

record create_env =
  rand_draw :: nat
  new_uuid :: string
  now_created :: int
  now_active :: int
  run_result :: "string + container"
  attach_result :: "string + socket"
  init_io :: "string + json"

text \<open>The body of the \<open>try\<close> block, entered with the permit taken.\<close>

definition create_body ::
  "create_env \<Rightarrow> manager \<Rightarrow> string option \<Rightarrow> int option \<Rightarrow> (exc + session) \<times> manager" where
  "create_body e m requested task_type =
     (case pick_game_file (rand_draw e) (game_files m) requested task_type of
        Inl x \<Rightarrow> (Inl x, m)
      | Inr gf \<Rightarrow>
          let sid = new_uuid e;
              m1 = m\<lparr>calls := calls m @ [Run sid]\<rparr>
          in
          (case run_result e of
             Inl x \<Rightarrow> (Inl (PyError x), m1)
           | Inr c \<Rightarrow>
               let m2 = m1\<lparr>calls := calls m1 @ [Attach c]\<rparr> in
               (case attach_result e of
                  Inl x \<Rightarrow> (Inl (PyError x), m2)
                | Inr sock \<Rightarrow>
                    let s = \<lparr>session_id = sid, container = c, socket = sock, game_file = gf,
                             observation = JStr [], admissible_commands = JList [],
                             status = ''active'', created_at = now_created e,
                             last_active_at = now_active e\<rparr>;
                        m3 = m2\<lparr>sessions := AList.update sid s (sessions m2)\<rparr>;
                        init_cmd = JObj [(''cmd'', JStr ''init''),
                                         (''game_file'', JStr (to_container_path (config m) gf))];
                        (response, m4) = send_command (init_io e) m3 s init_cmd
                    in
                    (case response of
                       JObj d \<Rightarrow>
                         if dict_get d ''status'' JNull \<noteq> JStr ''ok'' then
                           let m5 = kill_container m4 c;
                               m6 = m5\<lparr>sessions := AList.delete sid (sessions m5)\<rparr>;
                               m7 = sem_release m6
                           in (Inl (ContainerError
                                      (InitFailed (dict_get d ''message'' (JStr ''unknown error'')))),
                               m7)
                         else
                           let upd = (\<lambda>s. s\<lparr>observation := dict_get d ''observation'' (JStr []),
                                              admissible_commands :=
                                                dict_get d ''admissible_commands'' (JList [])\<rparr>)
                           in (Inr (upd s), modify_session sid upd m4)
                     | _ \<Rightarrow> (Inl (PyError ''AttributeError''), m4)))))"

text \<open>
  \<open>create_session\<close>: the test of \<open>_semaphore._value\<close>, the \<open>acquire\<close>, the body, and the two
  handlers. \<open>NoSlotsAvailable\<close> and \<open>ContainerError\<close> pass through; any other exception
  releases the permit and is wrapped in a \<open>ContainerError\<close>.
\<close>

definition reraised :: "exc \<Rightarrow> bool" where
  "reraised x = (case x of NoSlotsAvailable _ \<Rightarrow> True | ContainerError _ \<Rightarrow> True | _ \<Rightarrow> False)"

definition create_session ::
  "create_env \<Rightarrow> manager \<Rightarrow> string option \<Rightarrow> int option \<Rightarrow> session outcome \<times> manager" where
  "create_session e m requested task_type =
     (if \<not> 0 < sem_value m then (Raise (NoSlotsAvailable (max_sessions (config m))), m)
      else
        (case sem_acquire (sem_value m) of
           None \<Rightarrow> (Suspend, m)
         | Some v \<Rightarrow>
             (case create_body e (m\<lparr>sem_value := v\<rparr>) requested task_type of
                (Inr s, m') \<Rightarrow> (Return s, m')
              | (Inl x, m') \<Rightarrow>
                  if reraised x then (Raise x, m')
                  else (Raise (ContainerError (CreateFailed x)), sem_release m'))))"

subsection \<open>Deleting sessions\<close>

definition delete_session :: "manager \<Rightarrow> string \<Rightarrow> (exc + unit) \<times> manager" where
  "delete_session m sid =
     (case map_of (sessions m) sid of
        None \<Rightarrow> (Inl (SessionNotFound sid), m)
      | Some s \<Rightarrow>
          (Inr (),
           sem_release
             (kill_container (m\<lparr>sessions := AList.delete sid (sessions m)\<rparr>) (container s))))"

text \<open>
  The loop \<open>for sid in ids: try: await self.delete_session(sid) ... except Exception: pass\<close>,
  returning the ids whose deletion succeeded.
\<close>

fun delete_each :: "manager \<Rightarrow> string list \<Rightarrow> string list \<times> manager" where
  "delete_each m [] = ([], m)"
| "delete_each m (sid # sids) =
     (case delete_session m sid of
        (Inr _, m') \<Rightarrow> (case delete_each m' sids of (deleted, m'') \<Rightarrow> (sid # deleted, m''))
      | (Inl _, m') \<Rightarrow> delete_each m' sids)"

definition delete_all_sessions :: "manager \<Rightarrow> string list \<times> manager" where
  "delete_all_sessions m = delete_each m (map fst (sessions m))"

text \<open>One pass of \<open>_cleanup_loop\<close> after its sleep, at time \<open>now\<close>.\<close>

definition cleanup_sweep :: "int \<Rightarrow> manager \<Rightarrow> manager" where
  "cleanup_sweep now m =
     snd (delete_each m
            (map fst (filter (\<lambda>(sid, s). idle_timeout_s (config m) < now - last_active_at s)
                        (sessions m))))"

definition shutdown :: "manager \<Rightarrow> manager" where
  "shutdown m = snd (delete_each m (map fst (sessions m)))"

section \<open>HTTP handlers: \<open>routes.step_session\<close>\<close>

text \<open>The \<open>StepResponse\<close> schema of \<open>models.py\<close>, with its declared field types.\<close>

record step_response =
  sr_session_id :: string
  sr_observation :: string
  sr_score :: real
  sr_done :: bool
  sr_won :: bool
  sr_admissible_commands :: "string list"

text \<open>
  The constructor \<open>StepResponse(session_id=..., observation=..., score=..., done=...,
  won=..., admissible_commands=...)\<close> is generated by pydantic, which is not part of the
  repository: it validates the six values against the declared types and either returns
  the response or raises \<open>ValidationError\<close> (\<open>Inl\<close>, with its text). It enters
  \<open>step_session\<close> as the parameter \<open>make_response\<close>.
\<close>

type_synonym step_response_constructor =
  "string \<Rightarrow> json \<Rightarrow> json \<Rightarrow> json \<Rightarrow> json \<Rightarrow> json \<Rightarrow> string + step_response"

text \<open>
  \<open>step_session\<close>. The batch coordinator's \<open>submit_step\<close> is a parameter too: it gets the
  manager, the session and the action, and gives the worker's result and the manager
  after the exchange. The status is set to \<open>done\<close> before the response is constructed, so
  it stays set when the constructor raises.
\<close>

definition step_session ::
  "step_response_constructor \<Rightarrow> (manager \<Rightarrow> session \<Rightarrow> string \<Rightarrow> json \<times> manager)
     \<Rightarrow> manager \<Rightarrow> string \<Rightarrow> string \<Rightarrow> (exc + step_response) \<times> manager" where
  "step_session make_response submit m sid action =
     (case get_session m sid of
        Inl x \<Rightarrow> (Inl x, m)
      | Inr s \<Rightarrow>
          if status s = ''done'' then (Inl (SessionAlreadyDone sid), m)
          else
            (case submit m s action of
               (JObj d, m1) \<Rightarrow>
                 if dict_get d ''status'' JNull \<noteq> JStr ''ok''
                 then (Inl (ContainerError (StepFailed (dict_get d ''message'' (JStr ''Step failed'')))),
                       m1)
                 else
                   let done_flag = dict_get d ''done'' (JBool False);
                       m2 = (if truthy done_flag
                             then modify_session (session_id s) (\<lambda>s. s\<lparr>status := ''done''\<rparr>) m1
                             else m1)
                   in (case make_response sid
                              (dict_get d ''observation'' (JStr []))
                              (dict_get d ''score'' (JNum 0))
                              done_flag
                              (dict_get d ''won'' (JBool False))
                              (dict_get d ''admissible_commands'' (JList [])) of
                         Inl e \<Rightarrow> (Inl (PyError e), m2)
                       | Inr r \<Rightarrow> (Inr r, m2))
             | (_, m1) \<Rightarrow> (Inl (PyError ''AttributeError''), m1)))"

text \<open>
  A constructor for the examples: it accepts exactly the values of the declared types (a
  string, a number, two booleans, a list of strings) and refuses every other value.
  pydantic's constructor returns the same response on these values; it also converts some
  values of other types, which this one refuses.
\<close>

fun json_strings :: "json list \<Rightarrow> string list option" where
  "json_strings [] = Some []"
| "json_strings (JStr x # vs) = map_option ((#) x) (json_strings vs)"
| "json_strings (_ # vs) = None"

fun typed_step_response :: step_response_constructor where
  "typed_step_response sid (JStr obs) (JNum score) (JBool dn) (JBool won) (JList cmds) =
     (case json_strings cmds of
        None \<Rightarrow> Inl ''ValidationError''
      | Some cs \<Rightarrow>
          Inr \<lparr>sr_session_id = sid, sr_observation = obs, sr_score = score, sr_done = dn,
               sr_won = won, sr_admissible_commands = cs\<rparr>)"
| "typed_step_response sid obs score dn won cmds = Inl ''ValidationError''"

text \<open>
  Modelled from the spec: \<open>alfworld/api/batcher.py\<close> (\<open>BatchCoordinator.submit_step\<close>) is not
  among the sources. By the specification the coordinator performs one exchange
  \<open>{"cmd": "step", "action": ...}\<close> with the session's worker and returns the caller's own
  response object verbatim, after also updating the session's \<open>last_active_at\<close>,
  \<open>observation\<close>, \<open>admissible_commands\<close>, and \<open>status\<close> if \<open>done\<close> is true;
  \<open>last_active_at\<close> is updated on every successful step. The specification does not say
  what happens to the session on a response that is not ok: the model leaves it as it is.
  The batching window is a matter of timing and is not modelled.
\<close>

definition submit_step ::
  "string + json \<Rightarrow> int \<Rightarrow> manager \<Rightarrow> session \<Rightarrow> string \<Rightarrow> json \<times> manager" where
  "submit_step io now m s action =
     (case send_command io m s (JObj [(''cmd'', JStr ''step''), (''action'', JStr action)]) of
        (response, m1) \<Rightarrow>
          (response,
           (case response of
              JObj d \<Rightarrow>
                if dict_get d ''status'' JNull = JStr ''ok''
                then modify_session (session_id s)
                       (\<lambda>s. s\<lparr>last_active_at := now,
                              observation := dict_get d ''observation'' (JStr []),
                              admissible_commands := dict_get d ''admissible_commands'' (JList []),
                              status := (if dict_get d ''done'' (JBool False) = JBool True
                                         then ''done'' else status s)\<rparr>) m1
                else m1
            | _ \<Rightarrow> m1)))"

section \<open>Coroutines of the registry under the event loop\<close>

text \<open>
  The event loop runs one coroutine at a time and switches to another one only where the
  running coroutine suspends in an \<open>await\<close>. A task is one call of a registry operation,
  not yet started, suspended at one of its awaits, or finished. The awaits of
  \<open>create_session\<close> are the \<open>acquire\<close> of the semaphore (which suspends only when the
  semaphore is locked), the two \<open>run_in_executor\<close> calls that start the container and
  attach to it, the init exchange, and the kill after a failed init; \<open>delete_session\<close>
  awaits the kill; \<open>delete_all_sessions\<close> and a sweep of the reaper await the kill of each
  session they delete.
\<close>

datatype loop_kind = DeleteAll | Sweep int

datatype task =
    CreateStart create_env "string option" "int option"
  | CreateInAcquire create_env "string option" "int option"
  | CreateAwaitRun create_env string
  | CreateAwaitAttach create_env string container
  | CreateAwaitInit create_env session
  | CreateAwaitKill create_env session "(string \<times> json) list"
  | CreateDone "exc + session"
  | DeleteStart string
  | DeleteAwaitKill string
  | DeleteDone "exc + unit"
  | LoopStart loop_kind
  | LoopAwaitKill string "string list" "string list"
  | LoopDone "string list"
  | Cancelled

fun in_acquire :: "task \<Rightarrow> bool" where
  "in_acquire (CreateInAcquire e requested task_type) = True"
| "in_acquire t = False"

fun not_started :: "task \<Rightarrow> bool" where
  "not_started (CreateStart e requested task_type) = True"
| "not_started (DeleteStart sid) = True"
| "not_started (LoopStart k) = True"
| "not_started t = False"

text \<open>
  \<open>Semaphore.locked\<close>: no permit is free, or some caller is already waiting in
  \<open>acquire\<close>.
\<close>

definition sem_locked :: "manager \<Rightarrow> task list \<Rightarrow> bool" where
  "sem_locked m ts = (sem_value m = 0 \<or> list_ex in_acquire ts)"

text \<open>The two handlers of \<open>create_session\<close>, applied to an exception of the \<open>try\<close> block.\<close>

definition create_failed :: "exc \<Rightarrow> manager \<Rightarrow> manager \<times> task" where
  "create_failed x m =
     (if reraised x then (m, CreateDone (Inl x))
      else (sem_release m, CreateDone (Inl (ContainerError (CreateFailed x)))))"

text \<open>From the permit taken to the first suspension, in \<open>run_in_executor\<close>.\<close>

definition create_after_acquire ::
  "create_env \<Rightarrow> manager \<Rightarrow> string option \<Rightarrow> int option \<Rightarrow> manager \<times> task" where
  "create_after_acquire e m requested task_type =
     (case pick_game_file (rand_draw e) (game_files m) requested task_type of
        Inl x \<Rightarrow> create_failed x m
      | Inr gf \<Rightarrow> (m\<lparr>calls := calls m @ [Run (new_uuid e)]\<rparr>, CreateAwaitRun e gf))"

text \<open>The loop over the ids to delete, up to its next suspension.\<close>

fun loop_segment :: "manager \<Rightarrow> string list \<Rightarrow> string list \<Rightarrow> manager \<times> task" where
  "loop_segment m [] deleted = (m, LoopDone deleted)"
| "loop_segment m (sid # rest) deleted =
     (case map_of (sessions m) sid of
        None \<Rightarrow> loop_segment m rest deleted
      | Some s \<Rightarrow>
          (kill_container (m\<lparr>sessions := AList.delete sid (sessions m)\<rparr>) (container s),
           LoopAwaitKill sid rest deleted))"

text \<open>
  One run of a task, from where it stands to its next suspension or its end; \<open>ts\<close> are
  the tasks of the loop, among them the callers waiting in \<open>acquire\<close>. The first
  equation is lines 72 to 94 of \<open>create_session\<close>: the test of \<open>_value\<close>, the
  \<open>acquire\<close>, which suspends the caller when the semaphore is locked and takes the permit
  at once otherwise, the choice of the game file and the call that starts the container.
  A caller suspended in \<open>acquire\<close> goes on when it is run with a permit free. When the
  init exchange has succeeded, the two fields are set on the session object, which is the
  entry of the dict as long as it has not been removed from it.
\<close>

fun segment :: "task list \<Rightarrow> manager \<Rightarrow> task \<Rightarrow> manager \<times> task" where
  "segment ts m (CreateStart e requested task_type) =
     (if \<not> 0 < sem_value m
      then (m, CreateDone (Inl (NoSlotsAvailable (max_sessions (config m)))))
      else if sem_locked m ts then (m, CreateInAcquire e requested task_type)
      else create_after_acquire e (m\<lparr>sem_value := sem_value m - 1\<rparr>) requested task_type)"
| "segment ts m (CreateInAcquire e requested task_type) =
     (if 0 < sem_value m
      then create_after_acquire e (m\<lparr>sem_value := sem_value m - 1\<rparr>) requested task_type
      else (m, CreateInAcquire e requested task_type))"
| "segment ts m (CreateAwaitRun e gf) =
     (case run_result e of
        Inl x \<Rightarrow> create_failed (PyError x) m
      | Inr c \<Rightarrow> (m\<lparr>calls := calls m @ [Attach c]\<rparr>, CreateAwaitAttach e gf c))"
| "segment ts m (CreateAwaitAttach e gf c) =
     (case attach_result e of
        Inl x \<Rightarrow> create_failed (PyError x) m
      | Inr sock \<Rightarrow>
          let s = \<lparr>session_id = new_uuid e, container = c, socket = sock, game_file = gf,
                   observation = JStr [], admissible_commands = JList [],
                   status = ''active'', created_at = now_created e,
                   last_active_at = now_active e\<rparr>;
              m3 = m\<lparr>sessions := AList.update (new_uuid e) s (sessions m)\<rparr>;
              init_cmd = JObj [(''cmd'', JStr ''init''),
                               (''game_file'', JStr (to_container_path (config m) gf))]
          in (m3\<lparr>calls := calls m3 @ [Send sock init_cmd]\<rparr>, CreateAwaitInit e s))"
| "segment ts m (CreateAwaitInit e s) =
     (case send_command_sync (init_io e) of
        JObj d \<Rightarrow>
          if dict_get d ''status'' JNull \<noteq> JStr ''ok''
          then (kill_container m (container s), CreateAwaitKill e s d)
          else
            let upd = (\<lambda>s. s\<lparr>observation := dict_get d ''observation'' (JStr []),
                               admissible_commands :=
                                 dict_get d ''admissible_commands'' (JList [])\<rparr>);
                current = (case map_of (sessions m) (session_id s) of
                             Some s' \<Rightarrow> s'
                           | None \<Rightarrow> s)
            in (modify_session (session_id s) upd m, CreateDone (Inr (upd current)))
      | _ \<Rightarrow> create_failed (PyError ''AttributeError'') m)"
| "segment ts m (CreateAwaitKill e s d) =
     create_failed
       (ContainerError (InitFailed (dict_get d ''message'' (JStr ''unknown error''))))
       (sem_release (m\<lparr>sessions := AList.delete (session_id s) (sessions m)\<rparr>))"
| "segment ts m (CreateDone r) = (m, CreateDone r)"
| "segment ts m (DeleteStart sid) =
     (case map_of (sessions m) sid of
        None \<Rightarrow> (m, DeleteDone (Inl (SessionNotFound sid)))
      | Some s \<Rightarrow>
          (kill_container (m\<lparr>sessions := AList.delete sid (sessions m)\<rparr>) (container s),
           DeleteAwaitKill sid))"
| "segment ts m (DeleteAwaitKill sid) = (sem_release m, DeleteDone (Inr ()))"
| "segment ts m (DeleteDone r) = (m, DeleteDone r)"
| "segment ts m (LoopStart DeleteAll) = loop_segment m (map fst (sessions m)) []"
| "segment ts m (LoopStart (Sweep now)) =
     loop_segment m
       (map fst (filter (\<lambda>(sid, s). idle_timeout_s (config m) < now - last_active_at s)
                   (sessions m))) []"
| "segment ts m (LoopAwaitKill sid rest deleted) =
     loop_segment (sem_release m) rest (deleted @ [sid])"
| "segment ts m (LoopDone deleted) = (m, LoopDone deleted)"
| "segment ts m Cancelled = (m, Cancelled)"

text \<open>The manager and the tasks of the loop; the loop lets task \<open>i\<close> run.\<close>

record system =
  mgr :: manager
  tasks :: "task list"

definition run_task :: "nat \<Rightarrow> system \<Rightarrow> system" where
  "run_task i g =
     (if i < length (tasks g)
      then (case segment (tasks g) (mgr g) (tasks g ! i) of
              (m', t') \<Rightarrow> \<lparr>mgr = m', tasks = (tasks g)[i := t']\<rparr>)
      else g)"

text \<open>
  The states the service can be in, under every order in which the loop runs its tasks: a
  new call may arrive at any time, any task may be the next to run, any task may be
  cancelled where it stands (\<open>CancelledError\<close> is not an \<open>Exception\<close>, so none of the
  handlers of the registry catches it and the call ends there), and code that is not one
  of these tasks (the step handler and the coordinator, the shutdown) may change the
  manager in between. None of that code calls \<open>acquire\<close>.
\<close>

inductive reachable :: "config \<Rightarrow> string list \<Rightarrow> system \<Rightarrow> bool"
  for cfg :: config and gfs :: "string list" where
  boot: "reachable cfg gfs \<lparr>mgr = new_manager cfg gfs, tasks = []\<rparr>"
| arrive: "reachable cfg gfs g \<Longrightarrow> not_started t \<Longrightarrow> reachable cfg gfs (g\<lparr>tasks := tasks g @ [t]\<rparr>)"
| run: "reachable cfg gfs g \<Longrightarrow> reachable cfg gfs (run_task i g)"
| cancel: "reachable cfg gfs g \<Longrightarrow> reachable cfg gfs (g\<lparr>tasks := (tasks g)[i := Cancelled]\<rparr>)"
| other: "reachable cfg gfs g \<Longrightarrow> reachable cfg gfs (g\<lparr>mgr := m'\<rparr>)"

text \<open>One call run without any other task in between, for at most \<open>n\<close> segments.\<close>

fun run_alone :: "nat \<Rightarrow> manager \<Rightarrow> task \<Rightarrow> manager \<times> task" where
  "run_alone 0 m t = (m, t)"
| "run_alone (Suc n) m t = (case segment [t] m t of (m', t') \<Rightarrow> run_alone n m' t')"

text \<open>
  The finished task for an outcome of \<open>create_session\<close> (which is never \<open>Suspend\<close>).
\<close>

fun create_result :: "session outcome \<Rightarrow> task" where
  "create_result (Return s) = CreateDone (Inr s)"
| "create_result (Raise x) = CreateDone (Inl x)"
| "create_result Suspend = CreateDone (Inl (PyError ''suspended''))"

section \<open>Concrete scenarios\<close>

text \<open>
  A server with room for one session and one game file; a session that has finished its
  game; that server holding the session, all permits taken; and what the outside world
  does during one \<open>create_session\<close>: the attach raising, the worker answering the init
  command with the JSON number 42, and the worker answering as the protocol says; the
  worker's reply to a step that ends the game; and a pool of two game files.
\<close>

definition example_config :: config where
  "example_config =
     \<lparr>max_sessions = 1, idle_timeout_s = 600, data_host_path = ''/host'',
      data_container_path = ''/data''\<rparr>"

definition example_manager :: manager where
  "example_manager = new_manager example_config [''/host/g1'']"

definition done_session :: session where
  "done_session =
     \<lparr>session_id = ''u0'', container = 5, socket = 2, game_file = ''/host/g1'',
      observation = JStr ''You won'', admissible_commands = JList [],
      status = ''done'', created_at = 0, last_active_at = 10\<rparr>"

definition full_manager :: "session \<Rightarrow> manager" where
  "full_manager s = example_manager\<lparr>sessions := [(''u0'', s)], sem_value := 0\<rparr>"

definition attach_fails_env :: create_env where
  "attach_fails_env =
     \<lparr>rand_draw = 0, new_uuid = ''u1'', now_created = 0, now_active = 0,
      run_result = Inr 7, attach_result = Inl ''attach failed'', init_io = Inr JNull\<rparr>"

definition number_reply_env :: create_env where
  "number_reply_env =
     \<lparr>rand_draw = 0, new_uuid = ''u1'', now_created = 0, now_active = 0,
      run_result = Inr 7, attach_result = Inr 3, init_io = Inr (JNum 42)\<rparr>"

definition ok_env :: create_env where
  "ok_env =
     \<lparr>rand_draw = 1, new_uuid = ''u1'', now_created = 0, now_active = 0,
      run_result = Inr 7, attach_result = Inr 3,
      init_io = Inr (JObj [(''status'', JStr ''ok''), (''observation'', JStr ''Welcome''),
                           (''admissible_commands'', JList [JStr ''look''])])\<rparr>"

definition step_reply :: "(string \<times> json) list" where
  "step_reply =
     [(''status'', JStr ''ok''), (''observation'', JStr ''Done''), (''score'', JNum 1),
      (''done'', JBool True), (''won'', JBool True),
      (''admissible_commands'', JList [JStr ''look''])]"

definition pool :: "string list" where
  "pool = [''/host/pick_and_place_simple/g1'', ''/host/look_at_obj_in_light/g2'']"

text \<open>
  Two calls on the server with one permit: the first has run up to the start of its
  container and holds the permit when the second arrives.
\<close>

definition second_env :: create_env where
  "second_env = ok_env\<lparr>new_uuid := ''u2''\<rparr>"

definition one_call :: system where
  "one_call =
     \<lparr>mgr = new_manager example_config [''/host/g1''], tasks = []\<rparr>
       \<lparr>tasks := tasks \<lparr>mgr = new_manager example_config [''/host/g1''], tasks = []\<rparr>
                  @ [CreateStart ok_env None None]\<rparr>"

definition contended :: system where
  "contended =
     (run_task 0 one_call)
       \<lparr>tasks := tasks (run_task 0 one_call) @ [CreateStart second_env None None]\<rparr>"

text \<open>
  Permit accounting: one entry per key in the dict, and as many permits out as there are
  sessions.
\<close>

definition accounted :: "manager \<Rightarrow> bool" where
  "accounted m = (distinct (map fst (sessions m)) \<and> outstanding m = int (length (sessions m)))"

section \<open>Properties of the codec\<close>

lemma unat_byte_of_nat: "unat (word_of_nat k :: byte) = k mod 256"
  by (simp add: unat_of_nat)

lemma from_bytes_big_be32:
  assumes "n < 4294967296"
  shows "from_bytes_big (be32 n) = n"
proof -
  define a where "a = n div 256"
  define b where "b = n div 65536"
  define c where "c = n div 16777216"
  have ba: "b = a div 256" and cb: "c = b div 256"
    by (simp_all add: a_def b_def c_def div_mult2_eq)
  have c: "c mod 256 = c"
    using assms by (simp add: c_def)
  have "from_bytes_big (be32 n) =
        ((c mod 256 * 256 + b mod 256) * 256 + a mod 256) * 256 + n mod 256"
    by (simp add: from_bytes_big_def be32_def unat_byte_of_nat a_def b_def c_def)
  also have "c mod 256 = c"
    by (rule c)
  also have "c * 256 + b mod 256 = b"
    unfolding cb by simp
  also have "b * 256 + a mod 256 = a"
    unfolding ba by simp
  also have "a * 256 + n mod 256 = n"
    unfolding a_def by simp
  finally show ?thesis .
qed

lemma decode_loop_shift:
  "decode_loop (pre @ raw) (length pre + pos) res = decode_loop raw pos res"
proof (induction raw pos res rule: decode_loop.induct)
  case (1 raw pos result)
  have sz: "frame_size (pre @ raw) (length pre + pos) = frame_size raw pos"
    by (simp add: frame_size_def py_slice_def add.assoc)
  have sl: "\<And>a b. py_slice (pre @ raw) (length pre + a) (length pre + b) = py_slice raw a b"
    by (simp add: py_slice_def)
  show ?case
  proof (cases "pos < length raw \<and> pos + 8 \<le> length raw \<and> raw ! pos \<in> {0, 1, 2}
            \<and> pos + 8 + frame_size raw pos \<le> length raw \<and> 0 < frame_size raw pos")
    case True
    have "decode_loop (pre @ raw) (length pre + pos) result =
          decode_loop (pre @ raw) (length pre + (pos + 8 + frame_size raw pos))
            (if raw ! pos \<in> {0, 1}
                 then result @ [decode_utf8 (py_slice raw (pos + 8) (pos + 8 + frame_size raw pos))]
                 else result)"
      using True
      by (subst decode_loop.simps) (simp add: sz sl nth_append add.assoc)
    also have "\<dots> = decode_loop raw (pos + 8 + frame_size raw pos)
            (if raw ! pos \<in> {0, 1}
                 then result @ [decode_utf8 (py_slice raw (pos + 8) (pos + 8 + frame_size raw pos))]
                 else result)"
      using True by (intro "1.IH") auto
    also have "\<dots> = decode_loop raw pos result"
      using True by (subst (2) decode_loop.simps) simp
    finally show ?thesis .
  next
    case False
    then show ?thesis
      apply (subst decode_loop.simps)
      apply (subst (2) decode_loop.simps)
      apply (auto simp add: sz nth_append)
      done
  qed
qed


lemma length_frame_header: "length (padding f) = 3 \<Longrightarrow> length (frame_header f) = 8"
  by (simp add: frame_header_def be32_def)

lemma length_encode_frame:
  "length (padding f) = 3 \<Longrightarrow> length (encode_frame f) = 8 + length (payload f)"
  by (simp add: encode_frame_def length_frame_header)

lemma frame_size_encode_frame:
  assumes "well_formed f"
  shows "frame_size (encode_frame f @ rest) 0 = length (payload f)"
proof -
  have "py_slice (encode_frame f @ rest) 4 8 = be32 (length (payload f))"
    using assms by (simp add: py_slice_def encode_frame_def frame_header_def well_formed_def be32_def)
  then show ?thesis
    using assms by (simp add: frame_size_def from_bytes_big_be32 well_formed_def)
qed

lemma decode_loop_frame:
  assumes wf: "well_formed f" and ne: "payload f \<noteq> []"
  shows "decode_loop (encode_frame f @ rest) 0 res = decode_loop rest 0 (res @ kept f)"
proof -
  let ?raw = "encode_frame f @ rest"
  have len: "length (encode_frame f) = 8 + length (payload f)"
    using wf by (simp add: length_encode_frame well_formed_def)
  have sz: "frame_size ?raw 0 = length (payload f)"
    using wf by (rule frame_size_encode_frame)
  have hd: "?raw ! 0 = kind f"
    by (simp add: encode_frame_def frame_header_def)
  have h8: "length (frame_header f) = 8"
    using wf by (simp add: length_frame_header well_formed_def)
  have pl: "py_slice ?raw 8 (8 + length (payload f)) = payload f"
    by (simp add: py_slice_def encode_frame_def h8)
  have "decode_loop ?raw 0 res = decode_loop ?raw (length (encode_frame f) + 0) (res @ kept f)"
    using wf ne
    by (subst decode_loop.simps) (auto simp add: sz hd pl len kept_def well_formed_def)
  also have "\<dots> = decode_loop rest 0 (res @ kept f)"
    by (rule decode_loop_shift)
  finally show ?thesis .
qed

lemma decode_loop_frames:
  assumes "\<forall>f \<in> set fs. well_formed f \<and> payload f \<noteq> []"
  shows "decode_loop (concat (map encode_frame fs) @ rest) 0 res
         = decode_loop rest 0 (res @ concat (map kept fs))"
  using assms
proof (induction fs arbitrary: res)
  case Nil
  then show ?case by simp
next
  case (Cons f fs)
  have "decode_loop (concat (map encode_frame (f # fs)) @ rest) 0 res
        = decode_loop (encode_frame f @ (concat (map encode_frame fs) @ rest)) 0 res"
    by simp
  also have "\<dots> = decode_loop (concat (map encode_frame fs) @ rest) 0 (res @ kept f)"
    using Cons.prems by (intro decode_loop_frame) auto
  also have "\<dots> = decode_loop rest 0 ((res @ kept f) @ concat (map kept fs))"
    using Cons.prems by (intro Cons.IH) auto
  finally show ?case by simp
qed



lemma decode_loop_end: "length raw \<le> pos \<Longrightarrow> decode_loop raw pos res = res"
  by (subst decode_loop.simps) simp

lemma decode_loop_fallback:
  assumes "pos < length raw"
    and "\<not> (pos + 8 \<le> length raw \<and> raw ! pos \<in> {0, 1, 2}
            \<and> pos + 8 + frame_size raw pos \<le> length raw \<and> 0 < frame_size raw pos)"
  shows "decode_loop raw pos res = res @ [decode_utf8 (drop pos raw)]"
proof -
  have "decode_loop raw pos res =
     (if pos < length raw then
        (if pos + 8 \<le> length raw \<and> raw ! pos \<in> {0, 1, 2}
            \<and> pos + 8 + frame_size raw pos \<le> length raw \<and> 0 < frame_size raw pos
         then decode_loop raw (pos + 8 + frame_size raw pos)
                (if raw ! pos \<in> {0, 1}
                 then res @ [decode_utf8 (py_slice raw (pos + 8) (pos + 8 + frame_size raw pos))]
                 else res)
         else res @ [decode_utf8 (drop pos raw)])
      else res)"
    by (rule decode_loop.simps)
  also have "\<dots> = res @ [decode_utf8 (drop pos raw)]"
    using assms(1) by (simp only: assms(2) if_True if_False)
  finally show ?thesis .
qed

lemma concat_kept: "concat (concat (map kept fs)) = decoded_payloads [0, 1] fs"
  by (induction fs) (auto simp add: kept_def decoded_payloads_def)

lemma utf8_replace_nonempty: "bs \<noteq> [] \<Longrightarrow> utf8_replace bs \<noteq> []"
  by (cases bs) (simp_all split: list.splits)

lemma decode_utf8_nonempty: "bs \<noteq> [] \<Longrightarrow> decode_utf8 bs \<noteq> []"
  by (simp add: decode_utf8_def utf8_replace_nonempty)

lemma decode_loop_truncated:
  assumes wf: "well_formed g" and n0: "0 < n" and n: "n < length (encode_frame g)"
  shows "decode_loop (take n (encode_frame g)) 0 res = res @ [decode_utf8 (take n (encode_frame g))]"
proof -
  let ?t = "take n (encode_frame g)"
  have len: "length ?t = n"
    using n by simp
  have h8: "length (frame_header g) = 8"
    using wf by (simp add: length_frame_header well_formed_def)
  have full: "length (encode_frame g) = 8 + length (payload g)"
    by (simp add: encode_frame_def h8)
  have "\<not> (0 + 8 \<le> length ?t \<and> ?t ! 0 \<in> {0, 1, 2}
            \<and> 0 + 8 + frame_size ?t 0 \<le> length ?t \<and> 0 < frame_size ?t 0)"
  proof (cases "8 \<le> n")
    case False
    then show ?thesis using len by simp
  next
    case True
    have "py_slice ?t 4 8 = py_slice (encode_frame g @ []) 4 8"
      using True by (simp add: py_slice_def take_drop min_def)
    then have "frame_size ?t 0 = length (payload g)"
      using frame_size_encode_frame [OF wf, of "[]"] by (simp add: frame_size_def)
    then show ?thesis
      using n full len by simp
  qed
  then have "decode_loop ?t 0 res = res @ [decode_utf8 (drop 0 ?t)]"
    using n0 len by (intro decode_loop_fallback) simp_all
  then show ?thesis by simp
qed

lemma decode_docker_stream_frames:
  assumes "\<forall>f \<in> set fs. well_formed f \<and> payload f \<noteq> []"
  shows "decode_docker_stream (concat (map encode_frame fs)) = decoded_payloads [0, 1] fs"
proof -
  have "decode_loop (concat (map encode_frame fs) @ []) 0 []
        = decode_loop [] 0 ([] @ concat (map kept fs))"
    using assms by (rule decode_loop_frames)
  then have "decode_loop (concat (map encode_frame fs)) 0 [] = concat (map kept fs)"
    by (simp add: decode_loop_end)
  then show ?thesis
    by (simp add: decode_docker_stream_def concat_kept)
qed

lemma decode_docker_stream_truncated:
  assumes "\<forall>f \<in> set fs. well_formed f \<and> payload f \<noteq> []"
    and "well_formed g" and "0 < n" and "n < length (encode_frame g)"
  shows "decode_docker_stream (concat (map encode_frame fs) @ take n (encode_frame g))
         = decode_docker_stream (concat (map encode_frame fs))
           @ decode_utf8 (take n (encode_frame g))"
proof -
  let ?t = "take n (encode_frame g)"
  have "decode_loop (concat (map encode_frame fs) @ ?t) 0 []
        = decode_loop ?t 0 ([] @ concat (map kept fs))"
    using assms(1) by (rule decode_loop_frames)
  also have "\<dots> = concat (map kept fs) @ [decode_utf8 ?t]"
    using assms(2-4) by (simp add: decode_loop_truncated)
  finally have "decode_docker_stream (concat (map encode_frame fs) @ ?t)
                = decoded_payloads [0, 1] fs @ decode_utf8 ?t"
    by (simp add: decode_docker_stream_def concat_kept)
  then show ?thesis
    using decode_docker_stream_frames [OF assms(1)] by simp
qed

lemma decode_docker_stream_fallback:
  assumes "raw \<noteq> []"
    and "\<not> (8 \<le> length raw \<and> raw ! 0 \<in> {0, 1, 2}
            \<and> 8 + frame_size raw 0 \<le> length raw \<and> 0 < frame_size raw 0)"
  shows "decode_docker_stream raw = decode_utf8 raw"
proof -
  have "decode_loop raw 0 [] = [] @ [decode_utf8 (drop 0 raw)]"
    using assms by (intro decode_loop_fallback) simp_all
  then show ?thesis
    by (simp add: decode_docker_stream_def)
qed

subsection \<open>Complete frames\<close>

text \<open>
  Claim C3, as the code has it. For every buffer that is a sequence of well-formed frames
  with non-empty payloads, the decoder returns the concatenation, in order, of the
  payloads of the frames of stream kind 0 (stdin) and 1 (stdout), each decoded as UTF-8 with
  replacement. The payloads of stderr frames (kind 2) are consumed and dropped: the
  source keeps a payload only under \<open>if stream_type in (0, 1)\<close>.
\<close>

theorem decode_well_formed_frames:
  assumes "\<forall>f \<in> set fs. well_formed f \<and> payload f \<noteq> []"
  shows "decode_docker_stream (concat (map encode_frame fs)) = decoded_payloads [0, 1] fs"
  using assms by (rule decode_docker_stream_frames)

theorem decode_well_formed_frames_witness:
  "well_formed \<lparr>kind = 1, padding = [0, 0, 0], payload = [65]\<rparr>
   \<and> well_formed \<lparr>kind = 2, padding = [0, 0, 0], payload = [66]\<rparr>
   \<and> well_formed \<lparr>kind = 0, padding = [0, 0, 0], payload = [67, 68]\<rparr>
   \<and> decode_docker_stream (concat (map encode_frame
         [\<lparr>kind = 1, padding = [0, 0, 0], payload = [65]\<rparr>,
          \<lparr>kind = 2, padding = [0, 0, 0], payload = [66]\<rparr>,
          \<lparr>kind = 0, padding = [0, 0, 0], payload = [67, 68]\<rparr>]))
       = [65, 67, 68]"
  using decode_well_formed_frames
    [of "[\<lparr>kind = 1, padding = [0, 0, 0], payload = [65]\<rparr>,
          \<lparr>kind = 2, padding = [0, 0, 0], payload = [66]\<rparr>,
          \<lparr>kind = 0, padding = [0, 0, 0], payload = [67, 68]\<rparr>]"]
  by (simp add: well_formed_def decoded_payloads_def decode_utf8_def)

text \<open>
  The claim as the specification words it (stdout and stderr payloads, in order) fails on
  a single well-formed stderr frame carrying the byte \<open>B\<close>: the decoder returns the
  empty text.
\<close>

theorem decode_stderr_payload_dropped:
  "well_formed \<lparr>kind = 2, padding = [0, 0, 0], payload = [66]\<rparr>
   \<and> decoded_payloads [1, 2] [\<lparr>kind = 2, padding = [0, 0, 0], payload = [66]\<rparr>] = [66]
   \<and> decode_docker_stream
         (concat (map encode_frame [\<lparr>kind = 2, padding = [0, 0, 0], payload = [66]\<rparr>]))
       \<noteq> decoded_payloads [1, 2] [\<lparr>kind = 2, padding = [0, 0, 0], payload = [66]\<rparr>]"
  using decode_docker_stream_frames
    [of "[\<lparr>kind = 2, padding = [0, 0, 0], payload = [66]\<rparr>]"]
  by (simp add: well_formed_def decoded_payloads_def decode_utf8_def)

text \<open>A stdin frame (kind 0), which the specification's sentence leaves out, is kept.\<close>

lemma decode_stdin_payload_kept:
  "decode_docker_stream
     (concat (map encode_frame [\<lparr>kind = 0, padding = [0, 0, 0], payload = [67]\<rparr>])) = [67]"
  using decode_docker_stream_frames
    [of "[\<lparr>kind = 0, padding = [0, 0, 0], payload = [67]\<rparr>]"]
  by (simp add: well_formed_def decoded_payloads_def decode_utf8_def)

subsection \<open>A truncated trailing frame\<close>

text \<open>
  Claim C4, as the code has it. The decoder returns text only; there is no carry of
  undecoded bytes. For every buffer that is a sequence of well-formed frames with
  non-empty payloads followed by a non-empty proper prefix of a well-formed frame, the
  result is the text decoded from the complete frames followed by the whole truncated
  part (its header bytes included) decoded as raw UTF-8 text, and that added text is never
  empty.
\<close>

theorem decode_truncated_trailing_frame:
  assumes "\<forall>f \<in> set fs. well_formed f \<and> payload f \<noteq> []"
    and "well_formed g" and "0 < n" and "n < length (encode_frame g)"
  shows "decode_docker_stream (concat (map encode_frame fs) @ take n (encode_frame g))
           = decode_docker_stream (concat (map encode_frame fs))
             @ decode_utf8 (take n (encode_frame g))
         \<and> decode_utf8 (take n (encode_frame g)) \<noteq> []"
proof -
  have "take n (encode_frame g) \<noteq> []"
    using assms(3,4) by auto
  then show ?thesis
    using decode_docker_stream_truncated [OF assms] decode_utf8_nonempty by simp
qed

theorem decode_truncated_trailing_frame_witness:
  "well_formed \<lparr>kind = 1, padding = [0, 0, 0], payload = [65]\<rparr>
   \<and> well_formed \<lparr>kind = 1, padding = [0, 0, 0], payload = [66, 67, 68, 69]\<rparr>
   \<and> (0 :: nat) < 10
   \<and> 10 < length (encode_frame \<lparr>kind = 1, padding = [0, 0, 0], payload = [66, 67, 68, 69]\<rparr>)
   \<and> decode_docker_stream
         (concat (map encode_frame [\<lparr>kind = 1, padding = [0, 0, 0], payload = [65]\<rparr>])
          @ take 10 (encode_frame \<lparr>kind = 1, padding = [0, 0, 0], payload = [66, 67, 68, 69]\<rparr>))
       = [65, 1, 0, 0, 0, 0, 0, 0, 4, 66, 67]"
  using decode_truncated_trailing_frame
    [of "[\<lparr>kind = 1, padding = [0, 0, 0], payload = [65]\<rparr>]"
        "\<lparr>kind = 1, padding = [0, 0, 0], payload = [66, 67, 68, 69]\<rparr>" 10]
    decode_docker_stream_frames [of "[\<lparr>kind = 1, padding = [0, 0, 0], payload = [65]\<rparr>]"]
  by (simp add: well_formed_def decoded_payloads_def decode_utf8_def encode_frame_def
      frame_header_def be32_def)

text \<open>
  The claim as the specification words it (the same text as for the complete frames alone,
  the rest carried over) fails on one stdout frame \<open>A\<close> followed by a frame that
  declares four payload bytes and brings two: the ten bytes of the truncated frame come out
  as text.
\<close>

theorem decode_truncated_frame_not_carried:
  "well_formed \<lparr>kind = 1, padding = [0, 0, 0], payload = [65]\<rparr>
   \<and> well_formed \<lparr>kind = 1, padding = [0, 0, 0], payload = [66, 67, 68, 69]\<rparr>
   \<and> 10 < length (encode_frame \<lparr>kind = 1, padding = [0, 0, 0], payload = [66, 67, 68, 69]\<rparr>)
   \<and> decode_docker_stream
         (concat (map encode_frame [\<lparr>kind = 1, padding = [0, 0, 0], payload = [65]\<rparr>])
          @ take 10 (encode_frame \<lparr>kind = 1, padding = [0, 0, 0], payload = [66, 67, 68, 69]\<rparr>))
       \<noteq> decode_docker_stream
           (concat (map encode_frame [\<lparr>kind = 1, padding = [0, 0, 0], payload = [65]\<rparr>]))"
  using decode_docker_stream_truncated
    [of "[\<lparr>kind = 1, padding = [0, 0, 0], payload = [65]\<rparr>]"
        "\<lparr>kind = 1, padding = [0, 0, 0], payload = [66, 67, 68, 69]\<rparr>" 10]
    decode_docker_stream_frames [of "[\<lparr>kind = 1, padding = [0, 0, 0], payload = [65]\<rparr>]"]
  by (simp add: well_formed_def decoded_payloads_def decode_utf8_def encode_frame_def
      frame_header_def be32_def)

subsection \<open>A header that declares an empty payload\<close>

text \<open>
  Claim C9. For every buffer that begins with a well-formed header (first byte 0, 1 or 2,
  three further bytes) whose declared payload length is 0, the frame is not skipped: the
  \<open>size > 0\<close> test sends the decoder to the raw-text fallback, and the result is the
  whole buffer, the eight header bytes included, decoded as UTF-8 with replacement.
\<close>

theorem decode_zero_length_header_fallback:
  assumes "k \<in> {0, 1, 2}" and "length pad = 3"
  shows "decode_docker_stream (k # pad @ be32 0 @ rest) = decode_utf8 (k # pad @ be32 0 @ rest)"
proof -
  let ?raw = "k # pad @ be32 0 @ rest"
  have "py_slice ?raw 4 8 = be32 0"
    using assms(2) by (simp add: py_slice_def be32_def)
  then have "frame_size ?raw 0 = 0"
    by (simp add: frame_size_def from_bytes_big_be32)
  then show ?thesis
    by (intro decode_docker_stream_fallback) simp_all
qed

theorem decode_zero_length_header_fallback_witness:
  "(1 :: byte) \<in> {0, 1, 2} \<and> length [0, 0, 0 :: byte] = 3
   \<and> decode_docker_stream (1 # [0, 0, 0] @ be32 0 @ [65, 66])
       = [1, 0, 0, 0, 0, 0, 0, 0, 65, 66]"
  using decode_zero_length_header_fallback [of 1 "[0, 0, 0]" "[65, 66]"]
  by (simp add: decode_utf8_def be32_def)

section \<open>Properties of the session registry\<close>

subsection \<open>Helper facts on the session dict\<close>

lemma map_of_modify:
  "map_of (map (\<lambda>(k, s). if k = sid then (k, f s) else (k, s)) xs) k'
   = (if k' = sid then map_option f (map_of xs k') else map_of xs k')"
  by (induction xs) auto

lemma sessions_modify_session:
  "map_of (sessions (modify_session sid f m)) k
   = (if k = sid then map_option f (map_of (sessions m) k) else map_of (sessions m) k)"
  by (simp add: modify_session_def map_of_modify)

subsection \<open>Where permit accounting is kept\<close>

text \<open>
  Deleting, sweeping and shutting down keep the accounting, and so does \<open>create_session\<close>
  whenever the id is new and the init exchange ends in a JSON object (which includes the
  synthetic error object made from an I/O failure).
\<close>

lemma update_fresh: "k \<notin> fst ` set xs \<Longrightarrow> AList.update k v xs = xs @ [(k, v)]"
  by (induction xs) auto

lemma length_delete_present:
  "distinct (map fst xs) \<Longrightarrow> map_of xs k = Some v \<Longrightarrow> Suc (length (AList.delete k xs)) = length xs"
proof (induction xs)
  case Nil
  then show ?case by simp
next
  case (Cons x xs)
  show ?case
  proof (cases "fst x = k")
    case True
    then have "k \<notin> fst ` set xs"
      using Cons.prems(1) by auto
    then show ?thesis
      using True by (cases x) simp
  next
    case False
    then show ?thesis
      using Cons by (cases x) auto
  qed
qed

lemma delete_fresh_snoc: "k \<notin> fst ` set xs \<Longrightarrow> AList.delete k (xs @ [(k, v)]) = xs"
  by (induction xs) auto

lemma modify_session_frame:
  "config (modify_session sid f m) = config m"
  "sem_value (modify_session sid f m) = sem_value m"
  "calls (modify_session sid f m) = calls m"
  "game_files (modify_session sid f m) = game_files m"
  "length (sessions (modify_session sid f m)) = length (sessions m)"
  by (simp_all add: modify_session_def)

lemma keys_modify_session: "map fst (sessions (modify_session sid f m)) = map fst (sessions m)"
  by (induction "sessions m") (auto simp add: modify_session_def split: prod.splits)

lemma delete_session_accounted:
  assumes "accounted m"
  shows "accounted (snd (delete_session m sid))"
proof (cases "map_of (sessions m) sid")
  case None
  then show ?thesis
    using assms by (simp add: delete_session_def)
next
  case (Some s)
  have "Suc (length (AList.delete sid (sessions m))) = length (sessions m)"
    using assms Some by (intro length_delete_present) (simp_all add: accounted_def)
  then show ?thesis
    using assms Some
    by (simp add: delete_session_def accounted_def outstanding_def sem_release_def
        kill_container_def distinct_delete)
qed

lemma delete_each_accounted: "accounted m \<Longrightarrow> accounted (snd (delete_each m sids))"
proof (induction sids arbitrary: m)
  case Nil
  then show ?case by simp
next
  case (Cons sid sids)
  have "accounted (snd (delete_session m sid))"
    using Cons.prems by (rule delete_session_accounted)
  then have "accounted (snd (delete_each (snd (delete_session m sid)) sids))"
    by (rule Cons.IH)
  then show ?case
    by (auto split: prod.splits sum.splits)
qed

lemma delete_all_sessions_accounted: "accounted m \<Longrightarrow> accounted (snd (delete_all_sessions m))"
  by (simp add: delete_all_sessions_def delete_each_accounted)

lemma cleanup_sweep_accounted: "accounted m \<Longrightarrow> accounted (cleanup_sweep now m)"
  by (simp add: cleanup_sweep_def delete_each_accounted)

lemma shutdown_accounted: "accounted m \<Longrightarrow> accounted (shutdown m)"
  by (simp add: shutdown_def delete_each_accounted)

lemma new_manager_accounted: "accounted (new_manager cfg gfs)"
  by (simp add: accounted_def new_manager_def outstanding_def)

lemma create_body_effect:
  assumes "distinct (map fst (sessions m))" and "new_uuid e \<notin> fst ` set (sessions m)"
    and "send_command_sync (init_io e) = JObj d"
  shows "case create_body e m requested task_type of
           (Inr s, m') \<Rightarrow>
             config m' = config m \<and> sem_value m' = sem_value m
             \<and> distinct (map fst (sessions m'))
             \<and> length (sessions m') = Suc (length (sessions m))
         | (Inl x, m') \<Rightarrow>
             config m' = config m \<and> sessions m' = sessions m
             \<and> sem_value m' = (if reraised x then sem_value m + 1 else sem_value m)"
  using assms
  by (auto simp add: create_body_def Let_def send_command_def kill_container_def sem_release_def
      reraised_def update_fresh delete_fresh_snoc keys_modify_session modify_session_frame
      pick_game_file_def random_choice_def
      split: sum.splits option.splits)

lemma create_session_accounted:
  assumes "accounted m" and "new_uuid e \<notin> fst ` set (sessions m)"
    and "send_command_sync (init_io e) = JObj d"
  shows "accounted (snd (create_session e m requested task_type))"
proof (cases "0 < sem_value m")
  case False
  then show ?thesis
    using assms(1) by (simp add: create_session_def)
next
  case True
  let ?m = "m\<lparr>sem_value := sem_value m - 1\<rparr>"
  have "distinct (map fst (sessions ?m))" and "new_uuid e \<notin> fst ` set (sessions ?m)"
    using assms(1,2) by (simp_all add: accounted_def)
  from create_body_effect [OF this assms(3), of requested task_type]
  show ?thesis
    using True assms(1)
    by (auto simp add: create_session_def sem_acquire_def accounted_def outstanding_def
        sem_release_def split: prod.splits sum.splits if_splits)
qed

subsection \<open>Failures of \<open>create_session\<close> after the container has started\<close>

text \<open>
  When the init exchange ends in an object whose status is not \<open>ok\<close> (the worker's error
  reply, or the synthetic one for an I/O failure), the container is killed, the permit is
  given back, the session is gone from the dict and a \<open>ContainerError\<close> is raised.
\<close>

lemma create_session_init_failure_cleanup:
  assumes "0 < sem_value m"
    and "pick_game_file (rand_draw e) (game_files m) requested task_type = Inr gf"
    and "run_result e = Inr c" and "attach_result e = Inr sock"
    and "send_command_sync (init_io e) = JObj d"
    and "dict_get d ''status'' JNull \<noteq> JStr ''ok''"
  shows "fst (create_session e m requested task_type)
           = Raise (ContainerError (InitFailed (dict_get d ''message'' (JStr ''unknown error''))))
         \<and> Kill c \<in> set (calls (snd (create_session e m requested task_type)))
         \<and> sem_value (snd (create_session e m requested task_type)) = sem_value m
         \<and> map_of (sessions (snd (create_session e m requested task_type))) (new_uuid e) = None"
  using assms
  by (simp add: create_session_def create_body_def sem_acquire_def sem_release_def reraised_def
      send_command_def kill_container_def Let_def delete_update_same AList.delete_conv)

text \<open>
  When the attach raises, the general handler gives the permit back and raises a
  \<open>ContainerError\<close>; the only calls issued are the run and the attach.
\<close>

lemma create_session_attach_failure:
  assumes "0 < sem_value m"
    and "pick_game_file (rand_draw e) (game_files m) requested task_type = Inr gf"
    and "run_result e = Inr c" and "attach_result e = Inl err"
  shows "create_session e m requested task_type
         = (Raise (ContainerError (CreateFailed (PyError err))),
            m\<lparr>calls := calls m @ [Run (new_uuid e), Attach c]\<rparr>)"
  using assms
  by (simp add: create_session_def create_body_def sem_acquire_def sem_release_def reraised_def
      Let_def)

text \<open>
  When the init exchange ends in a JSON value that is not an object, \<open>response.get\<close>
  raises; the general handler gives the permit back, and the session stays in the dict.
\<close>

lemma create_session_non_object_reply:
  assumes "0 < sem_value m"
    and "pick_game_file (rand_draw e) (game_files m) requested task_type = Inr gf"
    and "run_result e = Inr c" and "attach_result e = Inr sock"
    and "init_io e = Inr v" and "\<And>d. v \<noteq> JObj d"
  shows "fst (create_session e m requested task_type)
           = Raise (ContainerError (CreateFailed (PyError ''AttributeError'')))
         \<and> sem_value (snd (create_session e m requested task_type)) = sem_value m
         \<and> map_of (sessions (snd (create_session e m requested task_type))) (new_uuid e)
             = Some \<lparr>session_id = new_uuid e, container = c, socket = sock, game_file = gf,
                      observation = JStr [], admissible_commands = JList [],
                      status = ''active'', created_at = now_created e,
                      last_active_at = now_active e\<rparr>"
  using assms
  by (cases v)
    (auto simp add: create_session_def create_body_def sem_acquire_def sem_release_def
      reraised_def send_command_def send_command_sync_def Let_def update_conv')

text \<open>
  Claim C1 says that after every failure that follows the start of the container the
  registry kills the container, releases the permit, leaves no session record and raises a
  container error. The code does not do so when the attach raises: the exception reaches the
  general handler, which only releases the permit. With one free permit, the container
  started as number 7 and the attach raising, the call raises a \<open>ContainerError\<close>, the
  permit is back and no session is recorded, but the only calls issued are the run and the
  attach: container 7 is never killed.
\<close>

theorem create_session_attach_failure_leaks_container:
  "create_session attach_fails_env example_manager None None
     = (Raise (ContainerError (CreateFailed (PyError ''attach failed''))),
        example_manager\<lparr>calls := [Run ''u1'', Attach 7]\<rparr>)
   \<and> Kill 7 \<notin> set (calls (snd (create_session attach_fails_env example_manager None None)))"
  by (simp add: create_session_def create_body_def pick_game_file_def candidates_def
      random_choice_def sem_acquire_def sem_release_def reraised_def Let_def
      attach_fails_env_def example_manager_def example_config_def new_manager_def)

text \<open>
  Claim C2 says that after every completed operation of the registry the number of
  outstanding permits equals the number of sessions in the dict. The code breaks this when
  the worker answers the init command with a line that is JSON but not an object, here the
  number 42: \<open>response.get\<close> raises \<open>AttributeError\<close> after the session has been put in
  the dict, and the general handler releases the permit without removing the session. The
  call ends with a \<open>ContainerError\<close>, no permit outstanding, one session in the dict, and
  the container not killed.
\<close>

theorem create_session_non_object_reply_breaks_accounting:
  "fst (create_session number_reply_env example_manager None None)
     = Raise (ContainerError (CreateFailed (PyError ''AttributeError'')))
   \<and> outstanding (snd (create_session number_reply_env example_manager None None)) = 0
   \<and> active_session_count (snd (create_session number_reply_env example_manager None None)) = 1
   \<and> Kill 7 \<notin> set (calls (snd (create_session number_reply_env example_manager None None)))"
  by (simp add: create_session_def create_body_def pick_game_file_def candidates_def
      random_choice_def sem_acquire_def sem_release_def reraised_def send_command_def Let_def
      send_command_sync_def outstanding_def active_session_count_def to_container_path_def
      number_reply_env_def example_manager_def example_config_def new_manager_def)

subsection \<open>Admission\<close>

text \<open>
  Run as one call after the other: with no permit free \<open>create_session\<close> raises
  \<open>NoSlotsAvailable\<close> and leaves the manager as it was, and it never ends suspended.
\<close>

lemma create_session_no_free_permit:
  "(sem_value m = 0 \<longrightarrow>
      create_session e m requested task_type
        = (Raise (NoSlotsAvailable (max_sessions (config m))), m))
   \<and> fst (create_session e m requested task_type) \<noteq> Suspend"
  by (simp add: create_session_def sem_acquire_def split: prod.splits sum.splits)

lemma create_session_no_free_permit_example:
  "sem_value (full_manager done_session) = 0
   \<and> create_session ok_env (full_manager done_session) None None
       = (Raise (NoSlotsAvailable 1), full_manager done_session)"
  using create_session_no_free_permit [of "full_manager done_session" ok_env None None]
  by (simp add: full_manager_def example_manager_def example_config_def new_manager_def)

text \<open>
  A call that runs to its end with no other task in between does what the operation
  does: the segments of a task are the pieces of the operation between its awaits.
\<close>

lemma run_alone_create_done [simp]: "run_alone n m (CreateDone r) = (m, CreateDone r)"
  by (induction n) simp_all

lemma run_alone_delete_done [simp]: "run_alone n m (DeleteDone r) = (m, DeleteDone r)"
  by (induction n) simp_all

lemma run_alone_loop_done [simp]: "run_alone n m (LoopDone d) = (m, LoopDone d)"
  by (induction n) simp_all

lemma create_failed_run_alone [simp]:
  "(case create_failed x m of (m', t') \<Rightarrow> run_alone n m' t') = create_failed x m"
  by (simp add: create_failed_def)

lemma run_alone_create_session:
  "run_alone 5 m (CreateStart e requested task_type)
   = (snd (create_session e m requested task_type),
      create_result (fst (create_session e m requested task_type)))"
  by (simp add: eval_nat_numeral create_session_def create_body_def sem_acquire_def
      sem_locked_def create_after_acquire_def create_failed_def send_command_def
      kill_container_def Let_def update_conv'
      split: sum.splits json.splits prod.splits)

lemma run_alone_delete_session:
  "run_alone 2 m (DeleteStart sid)
   = (snd (delete_session m sid), DeleteDone (fst (delete_session m sid)))"
  by (simp add: eval_nat_numeral delete_session_def split: option.splits)

lemma run_alone_loop_segment:
  "length sids < n \<Longrightarrow>
   (case loop_segment m sids deleted of (m1, t1) \<Rightarrow> run_alone n m1 t1)
   = (snd (delete_each m sids), LoopDone (deleted @ fst (delete_each m sids)))"
proof (induction sids arbitrary: m deleted n)
  case Nil
  then show ?case by simp
next
  case (Cons sid rest)
  show ?case
  proof (cases "map_of (sessions m) sid")
    case None
    have "length rest < n"
      using Cons.prems by simp
    then show ?thesis
      using Cons.IH [of n m deleted] None by (simp add: delete_session_def)
  next
    case (Some s)
    obtain n' where n: "n = Suc n'" and n': "length rest < n'"
      using Cons.prems by (cases n) auto
    let ?m2 = "sem_release (kill_container (m\<lparr>sessions := AList.delete sid (sessions m)\<rparr>)
                 (container s))"
    have "(case loop_segment ?m2 rest (deleted @ [sid]) of (m1, t1) \<Rightarrow> run_alone n' m1 t1)
          = (snd (delete_each ?m2 rest),
             LoopDone ((deleted @ [sid]) @ fst (delete_each ?m2 rest)))"
      using n' by (rule Cons.IH)
    then show ?thesis
      using Some by (simp add: n delete_session_def split: prod.splits)
  qed
qed

lemma run_alone_loop_start:
  "run_alone (Suc k) m (LoopStart DeleteAll)
   = (case loop_segment m (map fst (sessions m)) [] of (m1, t1) \<Rightarrow> run_alone k m1 t1)"
  "run_alone (Suc k) m (LoopStart (Sweep now))
   = (case loop_segment m
             (map fst (filter (\<lambda>(sid, s). idle_timeout_s (config m) < now - last_active_at s)
                         (sessions m))) [] of
        (m1, t1) \<Rightarrow> run_alone k m1 t1)"
  by simp_all

lemma run_alone_delete_all_sessions:
  "run_alone (Suc (Suc (length (sessions m)))) m (LoopStart DeleteAll)
   = (snd (delete_all_sessions m), LoopDone (fst (delete_all_sessions m)))"
proof -
  let ?sids = "map fst (sessions m)"
  have "run_alone (Suc (Suc (length (sessions m)))) m (LoopStart DeleteAll)
        = (case loop_segment m ?sids [] of
             (m1, t1) \<Rightarrow> run_alone (Suc (length (sessions m))) m1 t1)"
    by (rule run_alone_loop_start)
  also have "\<dots> = (snd (delete_each m ?sids), LoopDone ([] @ fst (delete_each m ?sids)))"
    by (rule run_alone_loop_segment) simp
  finally show ?thesis
    by (simp only: delete_all_sessions_def append_Nil)
qed

lemma run_alone_cleanup_sweep:
  "fst (run_alone (Suc (Suc (length (sessions m)))) m (LoopStart (Sweep now)))
   = cleanup_sweep now m"
proof -
  let ?sids = "map fst (filter (\<lambda>(sid, s). idle_timeout_s (config m) < now - last_active_at s)
                          (sessions m))"
  have "run_alone (Suc (Suc (length (sessions m)))) m (LoopStart (Sweep now))
        = (case loop_segment m ?sids [] of
             (m1, t1) \<Rightarrow> run_alone (Suc (length (sessions m))) m1 t1)"
    by (rule run_alone_loop_start)
  also have "\<dots> = (snd (delete_each m ?sids), LoopDone ([] @ fst (delete_each m ?sids)))"
    by (rule run_alone_loop_segment) (simp add: le_imp_less_Suc)
  finally show ?thesis
    by (simp only: cleanup_sweep_def fst_conv)
qed

text \<open>
  No run of a task leaves a caller suspended in \<open>acquire\<close> unless one was suspended
  there before; so in no state the service can reach is a caller suspended there.
\<close>

lemma loop_segment_not_in_acquire: "\<not> in_acquire (snd (loop_segment m sids deleted))"
  by (induction m sids deleted rule: loop_segment.induct) (auto split: option.splits)

lemma segment_not_in_acquire:
  assumes "\<not> list_ex in_acquire ts" and "\<not> in_acquire t"
  shows "\<not> in_acquire (snd (segment ts m t))"
  using assms
  by (cases "(ts, m, t)" rule: segment.cases)
    (auto simp add: sem_locked_def create_after_acquire_def create_failed_def Let_def
      loop_segment_not_in_acquire split: sum.splits json.splits option.splits)

lemma no_task_in_acquire:
  assumes "reachable cfg gfs g"
  shows "\<not> list_ex in_acquire (tasks g)"
  using assms
proof (induction rule: reachable.induct)
  case boot
  then show ?case by simp
next
  case (arrive g t)
  then show ?case by (cases t) (simp_all add: list_ex_iff)
next
  case (run g i)
  show ?case
  proof (cases "i < length (tasks g)")
    case False
    then show ?thesis using run.IH by (simp add: run_task_def)
  next
    case True
    have "\<not> in_acquire (tasks g ! i)"
      using run.IH True by (auto simp add: list_ex_iff)
    then have "\<not> in_acquire (snd (segment (tasks g) (mgr g) (tasks g ! i)))"
      using run.IH by (intro segment_not_in_acquire)
    then show ?thesis
      using run.IH True
      by (auto simp add: run_task_def list_ex_iff split: prod.splits dest!: set_update_subset_insert [THEN subsetD])
  qed
next
  case (cancel g i)
  then show ?case
    by (auto simp add: list_ex_iff dest!: set_update_subset_insert [THEN subsetD])
next
  case (other g m')
  then show ?case by simp
qed


text \<open>
  Claim C5. In every state the service can reach, under every order in which the event
  loop runs the coroutines, no call is suspended in the \<open>acquire\<close> of the semaphore. And
  when a \<open>create_session\<close> call is run for the first time: if no permit is free, that run
  ends the call with \<open>NoSlotsAvailable\<close> and leaves the manager as it was, so no permit
  is taken, no container is started and no session is inserted; if a permit is free, that
  same run takes it, before any other coroutine can run, and goes on to choose the game
  file and to start the container.
\<close>

theorem admission_atomic_nonblocking:
  assumes "reachable cfg gfs g"
  shows "\<not> list_ex in_acquire (tasks g)
    \<and> (\<forall>i e requested task_type.
          i < length (tasks g) \<and> tasks g ! i = CreateStart e requested task_type \<longrightarrow>
          (sem_value (mgr g) = 0 \<longrightarrow>
             run_task i g
             = g\<lparr>tasks := (tasks g)
                   [i := CreateDone (Inl (NoSlotsAvailable (max_sessions (config (mgr g)))))]\<rparr>)
          \<and> (0 < sem_value (mgr g) \<longrightarrow>
             run_task i g
             = (case create_after_acquire e ((mgr g)\<lparr>sem_value := sem_value (mgr g) - 1\<rparr>)
                       requested task_type of
                  (m', t') \<Rightarrow> \<lparr>mgr = m', tasks = (tasks g)[i := t']\<rparr>)))"
proof -
  have free: "\<not> list_ex in_acquire (tasks g)"
    using assms by (rule no_task_in_acquire)
  then show ?thesis
    by (auto simp add: run_task_def sem_locked_def)
qed

lemma contended_eq:
  "contended =
     \<lparr>mgr = example_manager\<lparr>sem_value := 0, calls := [Run ''u1'']\<rparr>,
      tasks = [CreateAwaitRun ok_env ''/host/g1'', CreateStart second_env None None]\<rparr>"
  by (simp add: contended_def one_call_def run_task_def sem_locked_def create_after_acquire_def
      pick_game_file_def candidates_def random_choice_def ok_env_def example_manager_def
      new_manager_def example_config_def)

lemma reachable_one_call: "reachable example_config [''/host/g1''] one_call"
  unfolding one_call_def by (rule reachable.arrive [OF reachable.boot]) simp

lemma reachable_contended: "reachable example_config [''/host/g1''] contended"
proof -
  have "reachable example_config [''/host/g1''] (run_task 0 one_call)"
    using reachable_one_call by (rule reachable.run)
  then show ?thesis
    unfolding contended_def by (rule reachable.arrive) simp
qed

theorem admission_atomic_nonblocking_witness:
  "reachable example_config [''/host/g1''] one_call
   \<and> tasks one_call = [CreateStart ok_env None None]
   \<and> sem_value (mgr one_call) = 1
   \<and> run_task 0 one_call
       = \<lparr>mgr = example_manager\<lparr>sem_value := 0, calls := [Run ''u1'']\<rparr>,
          tasks = [CreateAwaitRun ok_env ''/host/g1'']\<rparr>
   \<and> reachable example_config [''/host/g1''] contended
   \<and> tasks contended = [CreateAwaitRun ok_env ''/host/g1'', CreateStart second_env None None]
   \<and> sem_value (mgr contended) = 0
   \<and> run_task 1 contended
       = contended\<lparr>tasks := [CreateAwaitRun ok_env ''/host/g1'',
                             CreateDone (Inl (NoSlotsAvailable 1))]\<rparr>"
  using admission_atomic_nonblocking [OF reachable_contended]
    admission_atomic_nonblocking [OF reachable_one_call]
    reachable_contended reachable_one_call
  by (simp add: contended_eq one_call_def example_manager_def new_manager_def example_config_def
      create_after_acquire_def pick_game_file_def candidates_def random_choice_def ok_env_def)

subsection \<open>Game-file selection\<close>

text \<open>
  Claim C10, as the code has it. With \<open>game_file\<close> omitted and a \<open>task_type\<close> that is
  none of 1 to 6, nothing is filtered and the task type raises nothing of its own: the
  candidates are the whole pool, the draw is \<open>random.choice\<close> on the whole pool, and the
  call behaves exactly as the call without a task type. When the pool is not empty the
  draw raises nothing and the game file is a file of the pool, the one at the index drawn.
\<close>

theorem unknown_task_type_ignored:
  assumes "t < 1 \<or> 6 < t"
  shows "candidates gfs (Some t) = gfs
         \<and> pick_game_file r gfs None (Some t) = random_choice r gfs
         \<and> (gfs \<noteq> [] \<longrightarrow>
              pick_game_file r gfs None (Some t) = Inr (gfs ! (r mod length gfs))
              \<and> gfs ! (r mod length gfs) \<in> set gfs)
         \<and> create_session e m None (Some t) = create_session e m None None"
proof -
  have "map_of TASK_TYPES t = None"
    using assms by (auto simp add: TASK_TYPES_def)
  then have c: "candidates gfs (Some t) = gfs" for gfs
    by (simp add: candidates_def)
  have cn: "candidates gfs None = gfs" for gfs
    by (simp add: candidates_def)
  have p: "pick_game_file r gfs None (Some t) = random_choice r gfs" for r gfs
    by (simp add: pick_game_file_def c)
  have pn: "pick_game_file r gfs None None = random_choice r gfs" for r gfs
    by (simp add: pick_game_file_def cn)
  have cb: "create_body e m' None (Some t) = create_body e m' None None" for m'
    by (simp add: create_body_def p pn)
  have "create_session e m None (Some t) = create_session e m None None"
    by (simp only: create_session_def cb)
  then show ?thesis
    by (simp add: c p random_choice_def)
qed

theorem unknown_task_type_ignored_witness:
  "(6 :: int) < 7
   \<and> candidates pool (Some 7) = pool
   \<and> pick_game_file 1 pool None (Some 7) = Inr ''/host/look_at_obj_in_light/g2''
   \<and> fst (create_session ok_env (new_manager example_config pool) None (Some 7))
       = Return \<lparr>session_id = ''u1'', container = 7, socket = 3,
                  game_file = ''/host/look_at_obj_in_light/g2'',
                  observation = JStr ''Welcome'', admissible_commands = JList [JStr ''look''],
                  status = ''active'', created_at = 0, last_active_at = 0\<rparr>"
  using unknown_task_type_ignored
    [of 7 pool 1 ok_env "new_manager example_config pool"]
  by (simp add: pool_def create_session_def create_body_def pick_game_file_def candidates_def
      random_choice_def sem_acquire_def send_command_def send_command_sync_def dict_get_def
      modify_session_def Let_def ok_env_def new_manager_def example_config_def)

text \<open>
  The claim as it is worded (for every such call no error is raised and a game file is
  chosen) fails when no game file was discovered: with an empty pool and task type 7 the
  draw raises \<open>IndexError\<close>, and the call ends with a \<open>ContainerError\<close>.
\<close>

theorem unknown_task_type_empty_pool_raises:
  "pick_game_file 1 [] None (Some 7) = Inl (PyError ''IndexError'')
   \<and> fst (create_session ok_env (new_manager example_config []) None (Some 7))
       = Raise (ContainerError (CreateFailed (PyError ''IndexError'')))"
  by (simp add: create_session_def create_body_def pick_game_file_def candidates_def
      TASK_TYPES_def random_choice_def sem_acquire_def sem_release_def reraised_def
      new_manager_def example_config_def)

text \<open>A known task type does filter: type 2 keeps the one file whose path names it.\<close>

lemma known_task_type_filters:
  "candidates pool (Some 2) = [''/host/look_at_obj_in_light/g2'']"
  by (simp add: candidates_def TASK_TYPES_def pool_def)

subsection \<open>Deletion\<close>

text \<open>
  Claim C8. Deleting an id that is not in the dict raises \<open>SessionNotFound\<close> and leaves the
  manager, so the dict and the permit count, as it was; and after a successful delete of an
  id, deleting it again is such a call.
\<close>

theorem delete_session_idempotent:
  "(map_of (sessions m) sid = None \<longrightarrow>
      delete_session m sid = (Inl (SessionNotFound sid), m))
   \<and> (fst (delete_session m sid) = Inr () \<longrightarrow>
      delete_session (snd (delete_session m sid)) sid
        = (Inl (SessionNotFound sid), snd (delete_session m sid)))"
  by (auto simp add: delete_session_def sem_release_def kill_container_def
      AList.delete_conv split: option.splits)

theorem delete_session_idempotent_witness:
  "map_of (sessions example_manager) ''u0'' = None
   \<and> delete_session example_manager ''u0'' = (Inl (SessionNotFound ''u0''), example_manager)
   \<and> fst (delete_session (full_manager done_session) ''u0'') = Inr ()
   \<and> delete_session (snd (delete_session (full_manager done_session) ''u0'')) ''u0''
       = (Inl (SessionNotFound ''u0''), snd (delete_session (full_manager done_session) ''u0''))
   \<and> sem_value (snd (delete_session (full_manager done_session) ''u0'')) = 1"
  using delete_session_idempotent [of example_manager "''u0''"]
    delete_session_idempotent [of "full_manager done_session" "''u0''"]
  by (simp add: full_manager_def example_manager_def new_manager_def delete_session_def
      sem_release_def kill_container_def)

section \<open>Properties of the step handler\<close>

text \<open>
  Claim C7. For a session whose status is \<open>done\<close>, a step submission raises
  \<open>SessionAlreadyDone\<close> before anything is sent and leaves the manager, so the session, as
  it was (hence every later submission meets the same state and is rejected too), whatever
  the coordinator and the response constructor would do; \<open>get_session\<close> returns the
  session; and \<open>delete_session\<close> succeeds and does the whole delete: the session is
  removed from the dict, the kill of its container is issued and one permit is given back.
\<close>

theorem done_is_absorbing:
  assumes "map_of (sessions m) sid = Some s" and "status s = ''done''"
  shows "step_session make_response submit m sid action = (Inl (SessionAlreadyDone sid), m)
         \<and> get_session m sid = Inr s
         \<and> delete_session m sid
             = (Inr (), m\<lparr>sessions := AList.delete sid (sessions m),
                          calls := calls m @ [Kill (container s)],
                          sem_value := sem_value m + 1\<rparr>)
         \<and> map_of (sessions (snd (delete_session m sid))) sid = None"
  using assms
  by (simp add: step_session_def get_session_def delete_session_def sem_release_def
      kill_container_def AList.delete_conv)

theorem done_is_absorbing_witness:
  "map_of (sessions (full_manager done_session)) ''u0'' = Some done_session
   \<and> status done_session = ''done''
   \<and> step_session typed_step_response (submit_step (Inr JNull) 20)
        (full_manager done_session) ''u0'' ''look''
       = (Inl (SessionAlreadyDone ''u0''), full_manager done_session)
   \<and> get_session (full_manager done_session) ''u0'' = Inr done_session
   \<and> delete_session (full_manager done_session) ''u0''
       = (Inr (), example_manager\<lparr>sessions := [], calls := [Kill 5], sem_value := 1\<rparr>)"
  using done_is_absorbing
    [of "full_manager done_session" "''u0''" done_session typed_step_response
        "submit_step (Inr JNull) 20" "''look''"]
  by (simp add: full_manager_def done_session_def example_manager_def new_manager_def)

text \<open>
  Claim C6. For a step on a session that is not done, with the worker answering an object
  whose status is \<open>ok\<close>: the coordinator hands that object back unchanged; the handler
  gives its own caller what the \<open>StepResponse\<close> constructor makes of the object's
  observation, score, done, won and admissible commands (the response, or the
  constructor's error); and afterwards, in either case, the session in the dict has
  \<open>last_active_at\<close> set to the time of the step, the observation and the admissible
  commands of the response, and status \<open>done\<close> when the response carries a true \<open>done\<close>
  (its old status otherwise).
\<close>

theorem step_ok_updates_session:
  assumes "map_of (sessions m) sid = Some s" and "session_id s = sid"
    and "status s \<noteq> ''done''" and "dict_get d ''status'' JNull = JStr ''ok''"
  shows "fst (submit_step (Inr (JObj d)) now m s action) = JObj d
         \<and> fst (step_session make_response (submit_step (Inr (JObj d)) now) m sid action)
             = (case make_response sid
                       (dict_get d ''observation'' (JStr []))
                       (dict_get d ''score'' (JNum 0))
                       (dict_get d ''done'' (JBool False))
                       (dict_get d ''won'' (JBool False))
                       (dict_get d ''admissible_commands'' (JList [])) of
                  Inl e \<Rightarrow> Inl (PyError e)
                | Inr r \<Rightarrow> Inr r)
         \<and> map_of (sessions (snd (step_session make_response (submit_step (Inr (JObj d)) now)
                                     m sid action))) sid
             = Some (s\<lparr>last_active_at := now,
                       observation := dict_get d ''observation'' (JStr []),
                       admissible_commands := dict_get d ''admissible_commands'' (JList []),
                       status := (if truthy (dict_get d ''done'' (JBool False))
                                  then ''done'' else status s)\<rparr>)"
proof -
  let ?upd = "\<lambda>s. s\<lparr>last_active_at := now,
                       observation := dict_get d ''observation'' (JStr []),
                       admissible_commands := dict_get d ''admissible_commands'' (JList []),
                       status := (if dict_get d ''done'' (JBool False) = JBool True
                                  then ''done'' else status s)\<rparr>"
  let ?m1 = "modify_session sid ?upd (m\<lparr>calls := calls m
               @ [Send (socket s) (JObj [(''cmd'', JStr ''step''), (''action'', JStr action)])]\<rparr>)"
  have sub: "submit_step (Inr (JObj d)) now m s action = (JObj d, ?m1)"
    using assms(2,4) by (simp add: submit_step_def send_command_def send_command_sync_def)
  have m1: "map_of (sessions ?m1) sid = Some (?upd s)"
    using assms(1) by (simp add: sessions_modify_session)
  have t: "dict_get d ''done'' (JBool False) = JBool True
           \<Longrightarrow> truthy (dict_get d ''done'' (JBool False))"
    by simp
  show ?thesis
    using assms m1 t
    by (auto simp add: step_session_def get_session_def sub sessions_modify_session Let_def
        split: sum.splits)
qed

theorem step_ok_updates_session_witness:
  "map_of (sessions (full_manager (done_session\<lparr>status := ''active''\<rparr>))) ''u0''
     = Some (done_session\<lparr>status := ''active''\<rparr>)
   \<and> session_id (done_session\<lparr>status := ''active''\<rparr>) = ''u0''
   \<and> status (done_session\<lparr>status := ''active''\<rparr>) \<noteq> ''done''
   \<and> dict_get step_reply ''status'' JNull = JStr ''ok''
   \<and> fst (submit_step (Inr (JObj step_reply)) 20
             (full_manager (done_session\<lparr>status := ''active''\<rparr>))
             (done_session\<lparr>status := ''active''\<rparr>) ''look'') = JObj step_reply
   \<and> fst (step_session typed_step_response (submit_step (Inr (JObj step_reply)) 20)
             (full_manager (done_session\<lparr>status := ''active''\<rparr>)) ''u0'' ''look'')
       = Inr \<lparr>sr_session_id = ''u0'', sr_observation = ''Done'', sr_score = 1, sr_done = True,
               sr_won = True, sr_admissible_commands = [''look'']\<rparr>
   \<and> map_of (sessions (snd (step_session typed_step_response
        (submit_step (Inr (JObj step_reply)) 20)
        (full_manager (done_session\<lparr>status := ''active''\<rparr>)) ''u0'' ''look''))) ''u0''
     = Some (done_session\<lparr>last_active_at := 20, observation := JStr ''Done'',
                            admissible_commands := JList [JStr ''look''], status := ''done''\<rparr>)"
  using step_ok_updates_session
    [of "full_manager (done_session\<lparr>status := ''active''\<rparr>)" "''u0''"
        "done_session\<lparr>status := ''active''\<rparr>" step_reply 20 "''look''" typed_step_response]
  by (simp add: full_manager_def done_session_def dict_get_def step_reply_def)

text \<open>
  With the constructor of the examples, an ok reply whose observation is \<open>null\<close> makes the
  handler raise, after the coordinator has updated the session.
\<close>

lemma step_session_ill_typed_reply:
  "fst (step_session typed_step_response
          (submit_step (Inr (JObj [(''status'', JStr ''ok''), (''observation'', JNull)])) 20)
          (full_manager (done_session\<lparr>status := ''active''\<rparr>)) ''u0'' ''look'')
     = Inl (PyError ''ValidationError'')"
  by (simp add: step_session_def get_session_def submit_step_def send_command_def
      send_command_sync_def full_manager_def done_session_def dict_get_def)

end
